theory Spec2Isabelle
  imports Main "HOL-Library.AList" "HOL-Library.Multiset"
begin

section \<open>Data model\<close>

text \<open>
  The Mongoose schema of \<open>models/ChainOfCustody.js\<close>. The two string enums of the schema
  are datatypes; optional strings (\<open>undefined\<close> in the source) are options. File contents
  and paths are byte strings. Timestamps are numbers read from the clock.

  A location is a string in a Mongoose document, whose schema casts it. The in-memory
  server stores whatever JSON value the request body holds, so the records are
  polymorphic in the type \<open>'l\<close> of locations.
\<close>

text \<open>
  A value parsed by \<open>express.json()\<close>. A number is kept as the string that JavaScript
  prints for it.
\<close>

datatype jsvalue =
    JNull
  | JBool bool
  | JNumber string
  | JString string
  | JArray "jsvalue list"
  | JObject "(string \<times> jsvalue) list"

datatype action = Upload | Move | Download | Access

datatype status = Active | Archived | Deleted

record 'l custody_event =
  action :: action
  timestamp :: nat
  userId :: string
  location :: 'l
  ipAddress :: "string option"
  userAgent :: "string option"
  notes' :: "string option"

record metadata =
  department :: "string option"
  caseNumber :: "string option"
  evidenceType :: "string option"
  classification :: "string option"

text \<open>
  \<open>file_record\<close> is the object that \<open>simple-server.js\<close> keeps in its \<open>files\<close> map;
  the Mongoose document is the same object with the embedded \<open>custodyChain\<close> array.
\<close>

record 'l file_record =
  fileId :: string
  originalFileName :: string
  filePath :: string
  fileSize :: nat
  mimeType :: string
  checksum :: string
  currentLocation :: 'l
  status :: status
  metadata :: metadata
  createdAt :: nat
  updatedAt :: nat

record 'l custody_record = "'l file_record" +
  custodyChain :: "'l custody_event list"

text \<open>
  The responses of the handlers. Each error is one \<open>res.status(...).json({error: ...})\<close>
  of the source:
  \<^item> \<open>NoFile\<close>: 400 "No file uploaded";
  \<^item> \<open>UploadRejected\<close>: the multer middleware refused the file (size limit);
  \<^item> \<open>MissingField\<close>: 400 "User ID is required", "Missing required fields: ...",
    "File ID and User ID are required";
  \<^item> \<open>NotFound\<close>: 404 "File not found";
  \<^item> \<open>InvalidState st\<close>: 400 "Cannot move file with status: st" (or "download");
  \<^item> \<open>MissingBytes\<close>: 404 "Physical file not found";
  \<^item> \<open>IntegrityViolation\<close>: 500 "File integrity check failed - file may be corrupted";
  \<^item> \<open>Failed\<close>: 500 sent by the \<open>catch\<close> block of the handler.
\<close>

datatype error =
    NoFile
  | UploadRejected
  | MissingField
  | NotFound
  | InvalidState status
  | MissingBytes
  | IntegrityViolation
  | Failed

record upload_response =
  up_fileId :: string
  up_originalFileName :: string
  up_fileSize :: nat
  up_checksum :: string
  up_uploadTimestamp :: nat

record 'l move_response =
  mv_fileId :: string
  mv_previousLocation :: "'l option"
  mv_newLocation :: 'l
  mv_moveTimestamp :: nat

record download_response =
  dl_fileName :: string
  dl_contentType :: string
  dl_contentLength :: nat
  dl_fileId :: string
  dl_checksum :: string
  dl_body :: string

record access_response =
  ac_fileId :: string
  ac_timestamp :: nat

text \<open>
  What a request reads from outside the ledger: the clock, the client's address and
  agent string, the identifier drawn by \<open>crypto.randomUUID()\<close>, the file name chosen
  by multer, the absolute path of the directory \<open>backend\<close> (the \<open>__dirname\<close> of
  \<open>simple-server.js\<close>; that of the route modules is \<open>backend/routes\<close>), whether the
  k-th database write of the request goes through, and whether the calls \<open>mkdirSync\<close>
  and \<open>renameSync\<close> of the request go through as far as directories, permissions and
  devices are concerned, none of which the disk model holds.
\<close>

record env =
  now :: nat
  ip :: "string option"
  agent :: "string option"
  uuid :: string
  tmpname :: string
  backend :: string
  db_up :: "nat \<Rightarrow> bool"
  fs_up :: bool

text \<open>The multipart file of an upload request.\<close>

record upload_file =
  originalname :: string
  mimetype :: string
  content :: string

text \<open>
  The state of the Mongoose-backed server: the collection and the files on disk, keyed
  by their normalised absolute paths.
\<close>

record server =
  db :: "string custody_record list"
  disk :: "string \<rightharpoonup> string"

section \<open>Library functions used by the handlers\<close>

text \<open>JavaScript's \<open>v || d\<close> on an optional string: \<open>undefined\<close> and \<open>''\<close> are falsy.\<close>

definition or_else :: "string option \<Rightarrow> string \<Rightarrow> string" where
  "or_else v d = (case v of None \<Rightarrow> d | Some s \<Rightarrow> if s = [] then d else s)"

text \<open>
  Truthiness of a parsed value and its conversion to a string in a template literal.
  The conversion of an object calls its \<open>toString\<close>; an own property of that name,
  which in a parsed value is never a function, leaves only \<open>valueOf\<close>, which answers
  the object itself, and the conversion throws (\<open>None\<close>). An array joins the
  conversions of its elements, with \<open>null\<close> as the empty string.
\<close>

fun js_truthy :: "jsvalue \<Rightarrow> bool" where
  "js_truthy JNull = False"
| "js_truthy (JBool b) = b"
| "js_truthy (JNumber s) = (s \<noteq> ''0'')"
| "js_truthy (JString s) = (s \<noteq> [])"
| "js_truthy (JArray xs) = True"
| "js_truthy (JObject kvs) = True"

fun join_comma :: "string option list \<Rightarrow> string option" where
  "join_comma [] = Some []"
| "join_comma [x] = x"
| "join_comma (x # y # r) =
     (case x of
        None \<Rightarrow> None
      | Some a \<Rightarrow> (case join_comma (y # r) of None \<Rightarrow> None | Some b \<Rightarrow> Some (a @ '','' @ b)))"

fun js_toString :: "jsvalue \<Rightarrow> string option" where
  "js_toString JNull = Some ''null''"
| "js_toString (JBool b) = Some (if b then ''true'' else ''false'')"
| "js_toString (JNumber s) = Some s"
| "js_toString (JString s) = Some s"
| "js_toString (JArray xs) =
     join_comma (map (\<lambda>x. if x = JNull then Some [] else js_toString x) xs)"
| "js_toString (JObject kvs) =
     (if ''toString'' \<in> set (map fst kvs) then None else Some ''[object Object]'')"

text \<open>
  Node's POSIX \<open>path\<close> module. \<open>segments\<close> splits a path at its separators;
  \<open>normalizeString\<close> drops empty and \<open>.\<close> segments and resolves \<open>..\<close> against the
  segment before it, keeping a leading \<open>..\<close> only in a relative path;
  \<open>path.normalize\<close> keeps the leading and the trailing separator; \<open>path.join\<close> joins its
  non-empty arguments and normalises.
\<close>

fun segments :: "string \<Rightarrow> string \<Rightarrow> string list" where
  "segments acc [] = [rev acc]"
| "segments acc (c # cs) =
     (if c = CHR ''/'' then rev acc # segments [] cs else segments (c # acc) cs)"

fun normalizeString :: "bool \<Rightarrow> string list \<Rightarrow> string list \<Rightarrow> string list" where
  "normalizeString allowAboveRoot res [] = rev res"
| "normalizeString allowAboveRoot res (seg # segs) =
     (if seg = [] \<or> seg = ''.'' then normalizeString allowAboveRoot res segs
      else if seg = ''..'' then
        (if res \<noteq> [] \<and> hd res \<noteq> ''..'' then normalizeString allowAboveRoot (tl res) segs
         else if allowAboveRoot then normalizeString allowAboveRoot (''..'' # res) segs
         else normalizeString allowAboveRoot res segs)
      else normalizeString allowAboveRoot (seg # res) segs)"

fun join_sep :: "string list \<Rightarrow> string" where
  "join_sep [] = []"
| "join_sep [s] = s"
| "join_sep (s # t # ss) = s @ ''/'' @ join_sep (t # ss)"

definition path_normalize :: "string \<Rightarrow> string" where
  "path_normalize p =
     (if p = [] then ''.''
      else
        let isAbsolute = (hd p = CHR ''/'');
            trailingSeparator = (last p = CHR ''/'');
            body = join_sep (normalizeString (\<not> isAbsolute) [] (segments [] p))
        in if body = [] then (if isAbsolute then ''/'' else if trailingSeparator then ''./'' else ''.'')
           else (if isAbsolute then ''/'' else []) @ body @ (if trailingSeparator then ''/'' else []))"

definition path_join :: "string list \<Rightarrow> string" where
  "path_join ps =
     (let joined = join_sep (filter (\<lambda>p. p \<noteq> []) ps)
      in if joined = [] then ''.'' else path_normalize joined)"

text \<open>\<open>path.basename\<close>: the last segment, trailing separators set aside.\<close>

definition basename :: "string \<Rightarrow> string" where
  "basename p =
     rev (takeWhile (\<lambda>c. c \<noteq> CHR ''/'') (dropWhile (\<lambda>c. c = CHR ''/'') (rev p)))"

text \<open>
  \<open>path.dirname\<close>: scanning from the end down to index 1, the path up to the first
  separator that follows a character which is none.
\<close>

definition dirname :: "string \<Rightarrow> string" where
  "dirname p =
     (if p = [] then ''.''
      else
        let hasRoot = (hd p = CHR ''/'');
            rest = dropWhile (\<lambda>c. c \<noteq> CHR ''/'') (dropWhile (\<lambda>c. c = CHR ''/'') (rev (tl p)));
            end' = length rest
        in if rest = [] then (if hasRoot then ''/'' else ''.'')
           else if hasRoot \<and> end' = 1 then ''//''
           else take end' p)"

text \<open>
  The upload directory of the route module, \<open>path.join(__dirname, '../uploads')\<close> with
  \<open>__dirname\<close> the directory \<open>routes\<close>, and that of \<open>simple-server.js\<close>, the same
  expression with \<open>__dirname\<close> the directory \<open>backend\<close>.
\<close>

definition uploadDir :: "env \<Rightarrow> string" where
  "uploadDir e = path_join [path_join [backend e, ''routes''], ''../uploads'']"

definition uploadsDir :: "env \<Rightarrow> string" where
  "uploadsDir e = path_join [backend e, ''../uploads'']"

text \<open>
  The disk holds files only. A path is blocked when one of its proper prefixes that
  end before a separator is a file: creating a directory at or below such a prefix and
  renaming a file to the path both throw (\<open>ENOTDIR\<close>).
\<close>

fun prefixes_at :: "string \<Rightarrow> string \<Rightarrow> string list" where
  "prefixes_at acc [] = []"
| "prefixes_at acc (c # cs) =
     (if c = CHR ''/'' \<and> acc \<noteq> [] then rev acc # prefixes_at (c # acc) cs
      else prefixes_at (c # acc) cs)"

definition blocked :: "(string \<rightharpoonup> string) \<Rightarrow> string \<Rightarrow> bool" where
  "blocked d p = list_ex (\<lambda>a. d a \<noteq> None) (prefixes_at [] p)"

text \<open>
  \<open>fs.renameSync\<close>: throws (\<open>None\<close>) when the old path holds no file or the new path
  is blocked; a file at the new path is replaced.
\<close>

definition renameSync ::
  "string \<Rightarrow> string \<Rightarrow> (string \<rightharpoonup> string) \<Rightarrow> (string \<rightharpoonup> string) option" where
  "renameSync old new d =
     (case d old of
        None \<Rightarrow> None
      | Some b \<Rightarrow> if blocked d new then None else Some ((d(old := None))(new \<mapsto> b)))"

text \<open>
  \<open>calculateChecksum\<close> of \<open>routes/upload.js\<close> (and \<open>calculateFileHash\<close> of
  \<open>simple-server.js\<close>): the SHA-256 hex digest of the file, rejected when the file cannot
  be read. The digest of Node's \<open>crypto\<close> is the parameter \<open>hasher\<close>, applied to the
  algorithm name and the bytes.
\<close>

definition calculateChecksum ::
  "(string \<Rightarrow> string \<Rightarrow> string) \<Rightarrow> (string \<rightharpoonup> string) \<Rightarrow> string \<Rightarrow> error + string" where
  "calculateChecksum hasher d p =
     (case d p of None \<Rightarrow> Inl Failed | Some b \<Rightarrow> Inr (hasher ''sha256'' b))"

text \<open>\<open>verifyFileIntegrity\<close> of \<open>routes/download.js\<close>: strict equality of the two strings.\<close>

definition verifyFileIntegrity ::
  "(string \<Rightarrow> string \<Rightarrow> string) \<Rightarrow> (string \<rightharpoonup> string) \<Rightarrow> string \<Rightarrow> string \<Rightarrow> error + bool" where
  "verifyFileIntegrity hasher d p expectedChecksum =
     (case d p of None \<Rightarrow> Inl Failed
      | Some b \<Rightarrow> Inr (hasher ''sha256'' b = expectedChecksum))"

section \<open>The Mongoose model\<close>

text \<open>
  The \<open>required\<close> validators of the schema: a required string must not be empty.
  The enums are enforced by the types.
\<close>

definition valid_event :: "string custody_event \<Rightarrow> bool" where
  "valid_event ev = (userId ev \<noteq> [] \<and> location ev \<noteq> [])"

definition validate :: "string custody_record \<Rightarrow> bool" where
  "validate r =
     (fileId r \<noteq> [] \<and> originalFileName r \<noteq> [] \<and> filePath r \<noteq> [] \<and> mimeType r \<noteq> []
      \<and> checksum r \<noteq> [] \<and> currentLocation r \<noteq> [] \<and> list_all valid_event (custodyChain r))"

definition findByFileId :: "string \<Rightarrow> string custody_record list \<Rightarrow> string custody_record option" where
  "findByFileId fid docs = find (\<lambda>r. fileId r = fid) docs"

text \<open>
  \<open>save()\<close> of a new document: rejected when the database is down, when validation fails,
  or when the unique index on \<open>fileId\<close> already holds the key. \<open>timestamps: true\<close> sets
  \<open>createdAt\<close> and \<open>updatedAt\<close>.
\<close>

definition save_new :: "env \<Rightarrow> nat \<Rightarrow> string custody_record \<Rightarrow> string custody_record list \<Rightarrow> string custody_record list option" where
  "save_new e k r docs =
     (if db_up e k \<and> validate r \<and> fileId r \<notin> set (map fileId docs)
      then Some (docs @ [r\<lparr>createdAt := now e, updatedAt := now e\<rparr>])
      else None)"

text \<open>
  \<open>save()\<close> of a document that was read from the collection: the stored document with
  the same key is replaced. No handler changes \<open>fileId\<close>, so the key identifies it.
\<close>

definition save :: "env \<Rightarrow> nat \<Rightarrow> string custody_record \<Rightarrow> string custody_record list \<Rightarrow> string custody_record list option" where
  "save e k r docs =
     (if db_up e k \<and> validate r
      then Some (map (\<lambda>d. if fileId d = fileId r then r\<lparr>updatedAt := now e\<rparr> else d) docs)
      else None)"

text \<open>
  \<open>addCustodyEvent\<close>: push the event, take its location as the current one when it is
  truthy, save. The result is the document as mutated in memory and the outcome of the save.
\<close>

definition addCustodyEvent ::
  "env \<Rightarrow> nat \<Rightarrow> string custody_event \<Rightarrow> string custody_record \<Rightarrow> string custody_record list
     \<Rightarrow> string custody_record \<times> string custody_record list option" where
  "addCustodyEvent e k eventData r docs =
     (let r1 = r\<lparr>custodyChain := custodyChain r @ [eventData]\<rparr>;
          r2 = (if location eventData \<noteq> [] then r1\<lparr>currentLocation := location eventData\<rparr> else r1)
      in (r2, save e k r2 docs))"

section \<open>Handlers of the Mongoose-backed server\<close>

text \<open>
  \<open>POST /api/upload\<close> (\<open>routes/upload.js\<close>). The multer middleware runs first: it
  sets aside a file part without file name, refuses a file above 100 MB and otherwise
  writes the file under the upload directory. An absent \<open>userId\<close> is the empty string.
\<close>

definition upload_route ::
  "(string \<Rightarrow> string \<Rightarrow> string) \<Rightarrow> env \<Rightarrow> upload_file option \<Rightarrow> string \<Rightarrow> metadata
     \<Rightarrow> string option \<Rightarrow> server \<Rightarrow> (error + upload_response) \<times> server" where
  "upload_route hasher e file uid meta nts s =
     (case file of
        None \<Rightarrow> (Inl NoFile, s)
      | Some f \<Rightarrow>
          if originalname f = [] then (Inl NoFile, s)
          else if length (content f) > 100 * 1024 * 1024 then (Inl UploadRejected, s)
          else
            let path = path_join [uploadDir e, tmpname e];
                s1 = s\<lparr>disk := (disk s)(path \<mapsto> content f)\<rparr>;
                cleanup = s1\<lparr>disk := (disk s1)(path := None)\<rparr>
            in
              if uid = [] then (Inl MissingField, s1)
              else
                (case calculateChecksum hasher (disk s1) path of
                   Inl err \<Rightarrow> (Inl Failed, cleanup)
                 | Inr csum \<Rightarrow>
                     let chainOfCustody =
                           \<lparr>fileId = uuid e, originalFileName = originalname f,
                            filePath = path, fileSize = length (content f),
                            mimeType = mimetype f, checksum = csum,
                            currentLocation = ''uploads'', status = Active,
                            metadata = meta, createdAt = now e, updatedAt = now e,
                            custodyChain =
                              [\<lparr>action = Upload, timestamp = now e, userId = uid,
                                location = ''uploads'', ipAddress = ip e,
                                userAgent = agent e, notes' = nts\<rparr>]\<rparr>
                     in
                       (case save_new e 0 chainOfCustody (db s1) of
                          None \<Rightarrow> (Inl Failed, cleanup)
                        | Some docs \<Rightarrow>
                            (Inr \<lparr>up_fileId = uuid e, up_originalFileName = originalname f,
                                  up_fileSize = length (content f), up_checksum = csum,
                                  up_uploadTimestamp = now e\<rparr>,
                             s1\<lparr>db := docs\<rparr>))))"

text \<open>
  \<open>POST /api/move\<close> (\<open>routes/move.js\<close>). The directory of the new location is
  created when it is missing and the file is renamed into it; when either call throws,
  the \<open>catch\<close> block answers before anything is changed. Directories are not part of
  the disk model: a file in the way of the directory makes \<open>renameSync\<close> throw, as
  it makes \<open>mkdirSync\<close> throw when that is called, and every other failure of the two
  calls is \<open>fs_up\<close>. The response's \<open>previousLocation\<close> is the location of the second
  to last event after the append. The three body fields are strings; another truthy
  value of \<open>newLocation\<close> makes \<open>path.join\<close> throw at the same place.
\<close>

definition move_route ::
  "env \<Rightarrow> string \<Rightarrow> string \<Rightarrow> string \<Rightarrow> string option \<Rightarrow> server
     \<Rightarrow> (error + string move_response) \<times> server" where
  "move_route e fid uid newLocation nts s =
     (if fid = [] \<or> uid = [] \<or> newLocation = [] then (Inl MissingField, s)
      else
        (case findByFileId fid (db s) of
           None \<Rightarrow> (Inl NotFound, s)
         | Some record \<Rightarrow>
             if status record \<noteq> Active then (Inl (InvalidState (status record)), s)
             else if disk s (filePath record) = None then (Inl MissingBytes, s)
             else
               let newLocationDir = path_join [path_join [backend e, ''routes''], ''../'', newLocation];
                   fileName = basename (filePath record);
                   newFilePath = path_join [newLocationDir, fileName]
               in
                 (case (if fs_up e then renameSync (filePath record) newFilePath (disk s) else None) of
                    None \<Rightarrow> (Inl Failed, s)
                  | Some moved \<Rightarrow>
                      let s1 = s\<lparr>disk := moved\<rparr>;
                          eventData =
                            \<lparr>action = Move, timestamp = now e, userId = uid,
                             location = newLocation, ipAddress = ip e, userAgent = agent e,
                             notes' = Some (or_else nts
                               (''File moved from '' @ currentLocation record @ '' to '' @ newLocation))\<rparr>;
                          (record1, saved) = addCustodyEvent e 0 eventData record (db s1)
                      in
                        (case saved of
                           None \<Rightarrow> (Inl Failed, s1)
                         | Some docs1 \<Rightarrow>
                             (case save e 1 (record1\<lparr>filePath := newFilePath\<rparr>) docs1 of
                                None \<Rightarrow> (Inl Failed, s1\<lparr>db := docs1\<rparr>)
                              | Some docs2 \<Rightarrow>
                                  (Inr \<lparr>mv_fileId = fid,
                                        mv_previousLocation =
                                          (case rev (custodyChain record) of
                                             [] \<Rightarrow> None | ev # _ \<Rightarrow> Some (location ev)),
                                        mv_newLocation = newLocation, mv_moveTimestamp = now e\<rparr>,
                                   s1\<lparr>db := docs2\<rparr>))))))"

text \<open>\<open>GET /api/download/:fileId\<close> (\<open>routes/download.js\<close>).\<close>

definition download_route ::
  "(string \<Rightarrow> string \<Rightarrow> string) \<Rightarrow> env \<Rightarrow> string \<Rightarrow> string \<Rightarrow> string option \<Rightarrow> server
     \<Rightarrow> (error + download_response) \<times> server" where
  "download_route hasher e fid uid nts s =
     (if uid = [] then (Inl MissingField, s)
      else
        (case findByFileId fid (db s) of
           None \<Rightarrow> (Inl NotFound, s)
         | Some record \<Rightarrow>
             if status record \<noteq> Active then (Inl (InvalidState (status record)), s)
             else
               (case disk s (filePath record) of
                  None \<Rightarrow> (Inl MissingBytes, s)
                | Some bytes \<Rightarrow>
                    (case verifyFileIntegrity hasher (disk s) (filePath record) (checksum record) of
                       Inl err \<Rightarrow> (Inl Failed, s)
                     | Inr isIntegrityValid \<Rightarrow>
                         if \<not> isIntegrityValid then (Inl IntegrityViolation, s)
                         else
                           let eventData =
                                 \<lparr>action = Download, timestamp = now e, userId = uid,
                                  location = currentLocation record, ipAddress = ip e,
                                  userAgent = agent e,
                                  notes' = Some (or_else nts ''File downloaded'')\<rparr>
                           in
                             (case snd (addCustodyEvent e 0 eventData record (db s)) of
                                None \<Rightarrow> (Inl Failed, s)
                              | Some docs \<Rightarrow>
                                  (Inr \<lparr>dl_fileName = originalFileName record,
                                        dl_contentType = mimeType record,
                                        dl_contentLength = fileSize record,
                                        dl_fileId = fid, dl_checksum = checksum record,
                                        dl_body = bytes\<rparr>,
                                   s\<lparr>db := docs\<rparr>))))))"

text \<open>\<open>POST /api/download/access-log\<close> (\<open>routes/download.js\<close>).\<close>

definition access_log_route ::
  "env \<Rightarrow> string \<Rightarrow> string \<Rightarrow> string option \<Rightarrow> server \<Rightarrow> (error + access_response) \<times> server" where
  "access_log_route e fid uid nts s =
     (if fid = [] \<or> uid = [] then (Inl MissingField, s)
      else
        (case findByFileId fid (db s) of
           None \<Rightarrow> (Inl NotFound, s)
         | Some record \<Rightarrow>
             let eventData =
                   \<lparr>action = Access, timestamp = now e, userId = uid,
                    location = currentLocation record, ipAddress = ip e,
                    userAgent = agent e, notes' = Some (or_else nts ''File accessed'')\<rparr>
             in
               (case snd (addCustodyEvent e 0 eventData record (db s)) of
                  None \<Rightarrow> (Inl Failed, s)
                | Some docs \<Rightarrow> (Inr \<lparr>ac_fileId = fid, ac_timestamp = now e\<rparr>, s\<lparr>db := docs\<rparr>))))"

section \<open>A digest for concrete evaluations\<close>

text \<open>
  The handlers are parametric in the digest. Where a statement is evaluated on concrete
  data, this stand-in takes the place of Node's \<open>crypto\<close>: two lowercase hexadecimal
  digits of a byte sum. It is not a cryptographic digest and no general statement uses it.
\<close>

definition hex_digit :: "nat \<Rightarrow> char" where
  "hex_digit n = ''0123456789abcdef'' ! (n mod 16)"

definition demo_digest :: "string \<Rightarrow> string \<Rightarrow> string" where
  "demo_digest alg bytes =
     (let n = fold (\<lambda>c acc. (acc + of_char c) mod 256) bytes (length alg)
      in [hex_digit (n div 16), hex_digit n])"

section \<open>The in-memory server\<close>

text \<open>
  \<open>simple-server.js\<close> keeps two insertion-ordered \<open>Map\<close>s, \<open>files\<close> and
  \<open>custodyChain\<close>, both keyed by \<open>fileId\<close>. \<open>Map.set\<close> is \<open>AList.update\<close>: an existing
  key keeps its position, a new key goes to the end. The values of the maps are objects
  that the handlers change in place. The body field \<open>newLocation\<close> is any parsed value
  and is stored as it is; \<open>fileId\<close>, \<open>userId\<close> and \<open>notes\<close> are strings here (another
  value of \<open>fileId\<close> finds no record, another value of the two others is stored as it
  is and takes no other path).
\<close>

record simple_server =
  files :: "(string \<times> jsvalue file_record) list"
  custodyChain_map :: "(string \<times> jsvalue custody_event list) list"
  sdisk :: "string \<rightharpoonup> string"

text \<open>\<open>custodyChain.get(fileId) || []\<close>.\<close>

definition chain_of :: "simple_server \<Rightarrow> string \<Rightarrow> jsvalue custody_event list" where
  "chain_of t fid = (case map_of (custodyChain_map t) fid of None \<Rightarrow> [] | Some c \<Rightarrow> c)"

text \<open>\<open>app.post('/api/upload')\<close>: no clean-up of the stored file on any failure.\<close>

definition simple_upload ::
  "(string \<Rightarrow> string \<Rightarrow> string) \<Rightarrow> env \<Rightarrow> upload_file option \<Rightarrow> string \<Rightarrow> metadata
     \<Rightarrow> string option \<Rightarrow> simple_server \<Rightarrow> (error + upload_response) \<times> simple_server" where
  "simple_upload hasher e file uid meta nts t =
     (case file of
        None \<Rightarrow> (Inl NoFile, t)
      | Some f \<Rightarrow>
          if originalname f = [] then (Inl NoFile, t)
          else if length (content f) > 100 * 1024 * 1024 then (Inl UploadRejected, t)
          else
            let path = path_join [uploadsDir e, tmpname e];
                t1 = t\<lparr>sdisk := (sdisk t)(path \<mapsto> content f)\<rparr>
            in
              if uid = [] then (Inl MissingField, t1)
              else
                (case calculateChecksum hasher (sdisk t1) path of
                   Inl err \<Rightarrow> (Inl Failed, t1)
                 | Inr csum \<Rightarrow>
                     let fileRecord =
                           \<lparr>fileId = uuid e, originalFileName = originalname f,
                            filePath = path, fileSize = length (content f),
                            mimeType = mimetype f, checksum = csum,
                            currentLocation = JString ''uploads'', status = Active,
                            metadata =
                              \<lparr>department = Some (or_else (department meta) []),
                               caseNumber = Some (or_else (caseNumber meta) []),
                               evidenceType = Some (or_else (evidenceType meta) []),
                               classification = Some (or_else (classification meta) [])\<rparr>,
                            createdAt = now e, updatedAt = now e\<rparr>;
                         custodyEntry =
                           \<lparr>action = Upload, timestamp = now e, userId = uid,
                            location = JString ''uploads'', ipAddress = ip e, userAgent = agent e,
                            notes' = Some (or_else nts ''File uploaded'')\<rparr>
                     in
                       (Inr \<lparr>up_fileId = uuid e, up_originalFileName = originalname f,
                             up_fileSize = length (content f), up_checksum = csum,
                             up_uploadTimestamp = now e\<rparr>,
                        t1\<lparr>files := AList.update (uuid e) fileRecord (files t1),
                           custodyChain_map :=
                             AList.update (uuid e) [custodyEntry] (custodyChain_map t1)\<rparr>)))"

text \<open>
  The template literal \<open>`File moved from ${previousLocation} to ${newLocation}`\<close>: it
  throws when the conversion of either value throws.
\<close>

definition moved_note :: "jsvalue \<Rightarrow> jsvalue \<Rightarrow> string option" where
  "moved_note previousLocation newLocation =
     (case js_toString previousLocation of
        None \<Rightarrow> None
      | Some a \<Rightarrow>
          (case js_toString newLocation of
             None \<Rightarrow> None
           | Some b \<Rightarrow> Some (''File moved from '' @ a @ '' to '' @ b)))"

text \<open>
  \<open>app.post('/api/move')\<close>: the label changes, the bytes stay where they are. The
  handler writes \<open>currentLocation\<close> and \<open>updatedAt\<close> into the object held by \<open>files\<close>
  first and builds the event after that; when no \<open>notes\<close> are given the event needs the
  template literal, and when that throws the \<open>catch\<close> block answers with the object
  already changed and no event pushed.
\<close>

definition simple_move ::
  "env \<Rightarrow> string \<Rightarrow> string \<Rightarrow> jsvalue \<Rightarrow> string option \<Rightarrow> simple_server
     \<Rightarrow> (error + jsvalue move_response) \<times> simple_server" where
  "simple_move e fid uid newLocation nts t =
     (if fid = [] \<or> uid = [] \<or> \<not> js_truthy newLocation then (Inl MissingField, t)
      else
        (case map_of (files t) fid of
           None \<Rightarrow> (Inl NotFound, t)
         | Some file \<Rightarrow>
             let chain = chain_of t fid;
                 previousLocation = currentLocation file;
                 file1 = file\<lparr>currentLocation := newLocation, updatedAt := now e\<rparr>;
                 t1 = t\<lparr>files := AList.update fid file1 (files t)\<rparr>
             in
               (case (if nts \<noteq> None \<and> nts \<noteq> Some [] then nts
                      else moved_note previousLocation newLocation) of
                  None \<Rightarrow> (Inl Failed, t1)
                | Some msg \<Rightarrow>
                    let custodyEntry =
                          \<lparr>action = Move, timestamp = now e, userId = uid,
                           location = newLocation, ipAddress = ip e, userAgent = agent e,
                           notes' = Some msg\<rparr>
                    in
                      (Inr \<lparr>mv_fileId = fid, mv_previousLocation = Some previousLocation,
                            mv_newLocation = newLocation, mv_moveTimestamp = now e\<rparr>,
                       t1\<lparr>custodyChain_map :=
                            AList.update fid (chain @ [custodyEntry]) (custodyChain_map t1)\<rparr>))))"

text \<open>
  \<open>app.get('/api/download/:fileId')\<close>. The response sets no \<open>Content-Length\<close>;
  the field holds the length of the streamed body.
\<close>

definition simple_download ::
  "env \<Rightarrow> string \<Rightarrow> string \<Rightarrow> string option \<Rightarrow> simple_server
     \<Rightarrow> (error + download_response) \<times> simple_server" where
  "simple_download e fid uid nts t =
     (if uid = [] then (Inl MissingField, t)
      else
        (case map_of (files t) fid of
           None \<Rightarrow> (Inl NotFound, t)
         | Some file \<Rightarrow>
             (case sdisk t (filePath file) of
                None \<Rightarrow> (Inl MissingBytes, t)
              | Some bytes \<Rightarrow>
                  let chain = chain_of t fid;
                      custodyEntry =
                        \<lparr>action = Download, timestamp = now e, userId = uid,
                         location = currentLocation file, ipAddress = ip e,
                         userAgent = agent e, notes' = Some (or_else nts ''File downloaded'')\<rparr>
                  in
                    (Inr \<lparr>dl_fileName = originalFileName file, dl_contentType = mimeType file,
                          dl_contentLength = length bytes, dl_fileId = fid,
                          dl_checksum = checksum file, dl_body = bytes\<rparr>,
                     t\<lparr>custodyChain_map :=
                         AList.update fid (chain @ [custodyEntry]) (custodyChain_map t)\<rparr>))))"

section \<open>Listing\<close>











section \<open>The command-line hash utility\<close>

text \<open>
  The class \<open>HashGenerator\<close> of \<open>manual-hash-generator.js\<close>. Its database is the JSON
  object \<open>files\<close> of \<open>custody-database.json\<close>, keyed by \<open>fileId\<close>; its disk maps an
  absolute path to the content and the birth time of the file. \<open>path.resolve\<close>, which
  depends on the working directory, is the parameter \<open>resolve\<close>.
\<close>

datatype hash_error = UnsupportedAlgorithm string | Unreadable

record hg_entry =
  en_id :: string
  en_timestamp :: nat
  en_action :: string
  en_hash :: string
  en_algorithm :: string
  en_location :: string
  en_user :: string
  en_workstation :: string
  en_notes :: string

record hg_file =
  hg_fileId :: string
  hg_originalPath :: string
  hg_fileName :: string
  hg_fileSize :: nat
  hg_created :: nat
  hg_custodyChain :: "hg_entry list"
  hg_lastModified :: "nat option"

record audit_entry =
  au_id :: string
  au_timestamp :: nat
  au_action :: string
  au_fileId :: string
  au_filePath :: string
  au_hash :: string
  au_algorithm :: string
  au_notes :: string
  au_user :: string
  au_workstation :: string

record cli =
  custody_db :: "string \<rightharpoonup> hg_file"
  audit_log :: "audit_entry list"
  cli_disk :: "string \<rightharpoonup> string \<times> nat"

text \<open>
  What one call reads from outside: the clock, two random identifiers, the user and host
  names, and whether the JSON files can be read and written.
\<close>

record cli_env =
  c_now :: nat
  c_entry_id :: string
  c_audit_id :: string
  c_user :: string
  c_host :: string
  c_readable :: bool
  c_writable :: bool

text \<open>
  \<open>String.prototype.toLowerCase\<close> on code units below 256: the letters A to Z and the
  Latin-1 capitals (all of 192 to 222 but the multiplication sign) move up by 32.
\<close>

definition toLowerCase_char :: "char \<Rightarrow> char" where
  "toLowerCase_char c =
     (let n = (of_char c :: nat)
      in if (65 \<le> n \<and> n \<le> 90) \<or> (192 \<le> n \<and> n \<le> 222 \<and> n \<noteq> 215)
         then char_of (n + 32) else c)"

definition toLowerCase :: "string \<Rightarrow> string" where
  "toLowerCase s = map toLowerCase_char s"

definition supportedAlgorithms :: "string list" where
  "supportedAlgorithms = [''md5'', ''sha1'', ''sha256'', ''sha512'']"

text \<open>\<open>generateFileHash\<close> with \<open>trackCustody = false\<close>.\<close>

definition hg_generateFileHash ::
  "(string \<Rightarrow> string \<Rightarrow> string) \<Rightarrow> (string \<Rightarrow> string) \<Rightarrow> (string \<rightharpoonup> string \<times> nat)
     \<Rightarrow> string \<Rightarrow> string \<Rightarrow> hash_error + string" where
  "hg_generateFileHash hasher resolve d fpath algorithm =
     (if toLowerCase algorithm \<notin> set supportedAlgorithms then Inl (UnsupportedAlgorithm algorithm)
      else
        (case d (resolve fpath) of
           None \<Rightarrow> Inl Unreadable
         | Some (bytes, birthtime) \<Rightarrow> Inr (hasher algorithm bytes)))"

text \<open>\<open>HashGenerator.verifyFileIntegrity\<close>: any failure of the digest is \<open>false\<close>.\<close>

definition hg_verifyFileIntegrity ::
  "(string \<Rightarrow> string \<Rightarrow> string) \<Rightarrow> (string \<Rightarrow> string) \<Rightarrow> (string \<rightharpoonup> string \<times> nat)
     \<Rightarrow> string \<Rightarrow> string \<Rightarrow> string \<Rightarrow> bool" where
  "hg_verifyFileIntegrity hasher resolve d fpath expectedHash algorithm =
     (case hg_generateFileHash hasher resolve d fpath algorithm of
        Inl err \<Rightarrow> False
      | Inr actualHash \<Rightarrow> toLowerCase actualHash = toLowerCase expectedHash)"

text \<open>\<open>generateFileId\<close>: the MD5 hex digest of the resolved path.\<close>

definition hg_generateFileId ::
  "(string \<Rightarrow> string \<Rightarrow> string) \<Rightarrow> (string \<Rightarrow> string) \<Rightarrow> string \<Rightarrow> string" where
  "hg_generateFileId hasher resolve fpath = hasher ''md5'' (resolve fpath)"

text \<open>\<open>loadDatabase\<close> answers the empty database when the file cannot be read.\<close>

definition loadDatabase :: "cli_env \<Rightarrow> cli \<Rightarrow> (string \<rightharpoonup> hg_file)" where
  "loadDatabase e st = (if c_readable e then custody_db st else Map.empty)"

text \<open>\<open>saveDatabase\<close> logs a failed write and goes on.\<close>

definition saveDatabase :: "cli_env \<Rightarrow> (string \<rightharpoonup> hg_file) \<Rightarrow> cli \<Rightarrow> cli" where
  "saveDatabase e dbf st = (if c_writable e then st\<lparr>custody_db := dbf\<rparr> else st)"

definition addAuditEntry :: "cli_env \<Rightarrow> audit_entry \<Rightarrow> cli \<Rightarrow> cli" where
  "addAuditEntry e entry st =
     (if c_readable e \<and> c_writable e then st\<lparr>audit_log := audit_log st @ [entry]\<rparr> else st)"

text \<open>\<open>addToCustodyChain\<close>: \<open>statSync\<close> throws when the file does not exist.\<close>

definition hg_addToCustodyChain ::
  "(string \<Rightarrow> string \<Rightarrow> string) \<Rightarrow> (string \<Rightarrow> string) \<Rightarrow> cli_env \<Rightarrow> string \<Rightarrow> string
     \<Rightarrow> string \<Rightarrow> string \<Rightarrow> string \<Rightarrow> cli \<Rightarrow> (hash_error + hg_entry) \<times> cli" where
  "hg_addToCustodyChain hasher resolve e fpath hash algorithm act nts st =
     (let dbf = loadDatabase e st;
          fid = hg_generateFileId hasher resolve fpath
      in case cli_disk st (resolve fpath) of
           None \<Rightarrow> (Inl Unreadable, st)
         | Some (bytes, birthtime) \<Rightarrow>
             let file0 =
                   (case dbf fid of
                      None \<Rightarrow>
                        \<lparr>hg_fileId = fid, hg_originalPath = fpath,
                         hg_fileName = basename fpath, hg_fileSize = length bytes,
                         hg_created = birthtime, hg_custodyChain = [],
                         hg_lastModified = None\<rparr>
                    | Some f \<Rightarrow> f);
                 custodyEntry =
                   \<lparr>en_id = c_entry_id e, en_timestamp = c_now e, en_action = act,
                    en_hash = hash, en_algorithm = algorithm, en_location = dirname fpath,
                    en_user = c_user e, en_workstation = c_host e, en_notes = nts\<rparr>;
                 file1 = file0\<lparr>hg_custodyChain := hg_custodyChain file0 @ [custodyEntry],
                               hg_lastModified := Some (c_now e)\<rparr>;
                 st1 = saveDatabase e (dbf(fid \<mapsto> file1)) st;
                 st2 = addAuditEntry e
                         \<lparr>au_id = c_audit_id e, au_timestamp = c_now e, au_action = act,
                          au_fileId = fid, au_filePath = fpath, au_hash = hash,
                          au_algorithm = algorithm, au_notes = nts, au_user = c_user e,
                          au_workstation = c_host e\<rparr> st1
             in (Inr custodyEntry, st2))"

section \<open>Reachable states and ledger invariants\<close>

text \<open>
  The states of the Mongoose-backed server that the four core operations produce from
  an empty collection, with any hand on the disk in between.
\<close>

inductive reachable :: "(string \<Rightarrow> string \<Rightarrow> string) \<Rightarrow> server \<Rightarrow> bool"
  for hasher :: "string \<Rightarrow> string \<Rightarrow> string" where
  reach_init: "reachable hasher \<lparr>db = [], disk = d\<rparr>"
| reach_upload: "reachable hasher s \<Longrightarrow> reachable hasher (snd (upload_route hasher e file uid meta nts s))"
| reach_move: "reachable hasher s \<Longrightarrow> reachable hasher (snd (move_route e fid uid loc nts s))"
| reach_download: "reachable hasher s \<Longrightarrow> reachable hasher (snd (download_route hasher e fid uid nts s))"
| reach_access: "reachable hasher s \<Longrightarrow> reachable hasher (snd (access_log_route e fid uid nts s))"
| reach_disk: "reachable hasher s \<Longrightarrow> reachable hasher (s\<lparr>disk := d\<rparr>)"

text \<open>The same for the in-memory server, which has no access-log operation.\<close>

inductive simple_reachable :: "(string \<Rightarrow> string \<Rightarrow> string) \<Rightarrow> simple_server \<Rightarrow> bool"
  for hasher :: "string \<Rightarrow> string \<Rightarrow> string" where
  sreach_init: "simple_reachable hasher \<lparr>files = [], custodyChain_map = [], sdisk = d\<rparr>"
| sreach_upload: "simple_reachable hasher t \<Longrightarrow> simple_reachable hasher (snd (simple_upload hasher e file uid meta nts t))"
| sreach_move: "simple_reachable hasher t \<Longrightarrow> simple_reachable hasher (snd (simple_move e fid uid loc nts t))"
| sreach_download: "simple_reachable hasher t \<Longrightarrow> simple_reachable hasher (snd (simple_download e fid uid nts t))"
| sreach_disk: "simple_reachable hasher t \<Longrightarrow> simple_reachable hasher (t\<lparr>sdisk := d\<rparr>)"

text \<open>The location that the most recent upload or move event of a chain establishes.\<close>

definition is_placement :: "'l custody_event \<Rightarrow> bool" where
  "is_placement ev = (action ev = Upload \<or> action ev = Move)"

definition last_placement :: "'l custody_event list \<Rightarrow> 'l option" where
  "last_placement evs =
     (case rev (filter is_placement evs) of [] \<Rightarrow> None | ev # _ \<Rightarrow> Some (location ev))"

text \<open>The indices of a chain that hold an upload event.\<close>

definition upload_indices :: "'l custody_event list \<Rightarrow> nat list" where
  "upload_indices evs = filter (\<lambda>i. action (evs ! i) = Upload) [0..<length evs]"

text \<open>
  A chain and a current location agree when the last placement is the current location
  and the only upload event is the first event.
\<close>

definition ledger_ok :: "'l custody_event list \<Rightarrow> 'l \<Rightarrow> bool" where
  "ledger_ok evs loc = (last_placement evs = Some loc \<and> upload_indices evs = [0])"

definition server_ok :: "server \<Rightarrow> bool" where
  "server_ok s = (\<forall>r\<in>set (db s). ledger_ok (custodyChain r) (currentLocation r))"

text \<open>On the in-memory server: the only upload event of every chain is its first event.\<close>

definition simple_ok :: "simple_server \<Rightarrow> bool" where
  "simple_ok t =
     (\<forall>fid f. map_of (files t) fid = Some f \<longrightarrow> upload_indices (chain_of t fid) = [0])"




section \<open>Concrete scenarios\<close>

text \<open>
  Scenario A of the specification on the Mongoose-backed server: ingest \<open>a.txt\<close> as
  \<open>u1\<close>, relocate it to \<open>archive\<close> as \<open>u2\<close>, retrieve it as \<open>u3\<close>.
\<close>

definition ex_env :: env where
  "ex_env = \<lparr>now = 1000, ip = Some ''10.0.0.1'', agent = Some ''curl'', uuid = ''id-1'',
             tmpname = ''file-1.txt'', backend = ''/app/backend'', db_up = (\<lambda>k. True),
             fs_up = True\<rparr>"

definition ex_env2 :: env where
  "ex_env2 = \<lparr>now = 2000, ip = Some ''10.0.0.2'', agent = None, uuid = ''id-2'',
              tmpname = ''file-1.txt'', backend = ''/app/backend'', db_up = (\<lambda>k. True),
              fs_up = True\<rparr>"

definition ex_file :: upload_file where
  "ex_file = \<lparr>originalname = ''a.txt'', mimetype = ''text/plain'', content = ''evidence''\<rparr>"

definition ex_file2 :: upload_file where
  "ex_file2 = \<lparr>originalname = ''b.txt'', mimetype = ''text/plain'', content = ''other''\<rparr>"

definition ex_meta :: metadata where
  "ex_meta = \<lparr>department = Some ''lab'', caseNumber = None, evidenceType = None,
              classification = None\<rparr>"

definition ex_path :: string where
  "ex_path = ''/app/backend/uploads/file-1.txt''"

definition ex_empty :: server where
  "ex_empty = \<lparr>db = [], disk = Map.empty\<rparr>"

definition ex_ingested :: server where
  "ex_ingested = snd (upload_route demo_digest ex_env (Some ex_file) ''u1'' ex_meta None ex_empty)"

definition ex_relocated :: server where
  "ex_relocated = snd (move_route ex_env2 ''id-1'' ''u2'' ''archive'' None ex_ingested)"

definition ex_retrieved :: server where
  "ex_retrieved = snd (download_route demo_digest ex_env2 ''id-1'' ''u3'' None ex_relocated)"

text \<open>Scenario B: the stored bytes are overwritten after the ingest.\<close>

definition ex_tampered :: server where
  "ex_tampered = ex_ingested\<lparr>disk := (disk ex_ingested)(ex_path \<mapsto> ''forged'')\<rparr>"

text \<open>
  Scenario C: the status is set to archived by an operation outside the core; here the
  stored bytes are overwritten as well.
\<close>

definition ex_archived :: server where
  "ex_archived = ex_tampered\<lparr>db := map (\<lambda>r. r\<lparr>status := Archived\<rparr>) (db ex_tampered)\<rparr>"

text \<open>The file of the first ingest is deleted and another one is uploaded to the same path.\<close>

definition ex_recreated :: server where
  "ex_recreated =
     snd (upload_route demo_digest ex_env2 (Some ex_file2) ''u2'' ex_meta None
            (ex_ingested\<lparr>disk := Map.empty\<rparr>))"

text \<open>Scenario A on the in-memory server, which stores under \<open>/app/uploads\<close>.\<close>

definition sx_path :: string where
  "sx_path = ''/app/uploads/file-1.txt''"

definition sx_empty :: simple_server where
  "sx_empty = \<lparr>files = [], custodyChain_map = [], sdisk = Map.empty\<rparr>"

definition sx_ingested :: simple_server where
  "sx_ingested = snd (simple_upload demo_digest ex_env (Some ex_file) ''u1'' ex_meta None sx_empty)"

definition sx_relocated :: simple_server where
  "sx_relocated = snd (simple_move ex_env2 ''id-1'' ''u2'' (JString ''archive'') None sx_ingested)"

definition sx_retrieved :: simple_server where
  "sx_retrieved = snd (simple_download ex_env2 ''id-1'' ''u3'' None sx_relocated)"

text \<open>
  After the ingest, a move request whose \<open>newLocation\<close> is the parsed body value
  \<open>{"toString": null}\<close>, with no \<open>notes\<close>.
\<close>

definition sx_halfway :: simple_server where
  "sx_halfway =
     snd (simple_move ex_env2 ''id-1'' ''u2'' (JObject [(''toString'', JNull)]) None sx_ingested)"









text \<open>The hash utility run in the directory \<open>/case\<close> on a file that is then replaced.\<close>

definition ex_resolve :: "string \<Rightarrow> string" where
  "ex_resolve p = (if take 1 p = ''/'' then p else ''/case/'' @ p)"

definition cx_env :: cli_env where
  "cx_env = \<lparr>c_now = 10, c_entry_id = ''e-1'', c_audit_id = ''a-1'', c_user = ''alice'',
             c_host = ''ws1'', c_readable = True, c_writable = True\<rparr>"

definition cx_env2 :: cli_env where
  "cx_env2 = \<lparr>c_now = 20, c_entry_id = ''e-2'', c_audit_id = ''a-2'', c_user = ''bob'',
              c_host = ''ws2'', c_readable = True, c_writable = True\<rparr>"

definition cx_empty :: cli where
  "cx_empty = \<lparr>custody_db = Map.empty, audit_log = [],
               cli_disk = [''/case/evidence.pdf'' \<mapsto> (''forged'', 5)]\<rparr>"

text \<open>
  The utility tracks \<open>evidence.pdf\<close> by a relative path; the file is replaced by another
  one, which is tracked by its absolute path.
\<close>

definition cx_disk2 :: "string \<rightharpoonup> string \<times> nat" where
  "cx_disk2 = [''/case/evidence.pdf'' \<mapsto> (''other'', 15)]"

definition cx_tracked :: cli where
  "cx_tracked =
     snd (hg_addToCustodyChain demo_digest ex_resolve cx_env ''evidence.pdf'' ''7d'' ''sha256''
            ''hash_generated'' [] cx_empty)"

definition cx_retracked :: cli where
  "cx_retracked =
     snd (hg_addToCustodyChain demo_digest ex_resolve cx_env2 ''/case/evidence.pdf'' ''28'' ''sha256''
            ''hash_generated'' [] (cx_tracked\<lparr>cli_disk := cx_disk2\<rparr>))"

section \<open>Preservation of the ledger invariants\<close>

lemma upload_indices_snoc:
  "upload_indices (evs @ [ev]) = upload_indices evs @ (if action ev = Upload then [length evs] else [])"
proof -
  have "filter (\<lambda>i. action ((evs @ [ev]) ! i) = Upload) [0..<length evs]
        = filter (\<lambda>i. action (evs ! i) = Upload) [0..<length evs]"
    by (rule filter_cong) (auto simp: nth_append)
  then show ?thesis
    by (simp add: upload_indices_def)
qed

lemma last_placement_snoc:
  "last_placement (evs @ [ev]) = (if is_placement ev then Some (location ev) else last_placement evs)"
  by (simp add: last_placement_def)

lemma ledger_ok_first:
  "action ev = Upload \<Longrightarrow> ledger_ok [ev] (location ev)"
  by (simp add: ledger_ok_def last_placement_def is_placement_def upload_indices_def)

lemma ledger_ok_move:
  "ledger_ok evs loc \<Longrightarrow> action ev = Move \<Longrightarrow> ledger_ok (evs @ [ev]) (location ev)"
  by (simp add: ledger_ok_def last_placement_snoc upload_indices_snoc is_placement_def)

lemma ledger_ok_read:
  "ledger_ok evs loc \<Longrightarrow> action ev = Download \<or> action ev = Access \<Longrightarrow> ledger_ok (evs @ [ev]) loc"
  by (auto simp add: ledger_ok_def last_placement_snoc upload_indices_snoc is_placement_def)

lemma findByFileId_Some:
  "findByFileId fid docs = Some r \<Longrightarrow> r \<in> set docs \<and> fileId r = fid"
  by (auto simp: findByFileId_def find_Some_iff)

lemma save_ok:
  assumes "save e k r docs = Some docs'"
    and "\<forall>x\<in>set docs. ledger_ok (custodyChain x) (currentLocation x)"
    and "ledger_ok (custodyChain r) (currentLocation r)"
  shows "\<forall>x\<in>set docs'. ledger_ok (custodyChain x) (currentLocation x)"
  using assms by (auto simp: save_def split: if_splits)

lemma save_new_ok:
  assumes "save_new e k r docs = Some docs'"
    and "\<forall>x\<in>set docs. ledger_ok (custodyChain x) (currentLocation x)"
    and "ledger_ok (custodyChain r) (currentLocation r)"
  shows "\<forall>x\<in>set docs'. ledger_ok (custodyChain x) (currentLocation x)"
  using assms by (auto simp: save_new_def split: if_splits)

lemma upload_route_ok: "server_ok s \<Longrightarrow> server_ok (snd (upload_route hasher e file uid meta nts s))"
  unfolding server_ok_def upload_route_def
  by (auto simp: Let_def ledger_ok_first[where ev="\<lparr>action = Upload, timestamp = t, userId = u, location = l, ipAddress = i, userAgent = a, notes' = n\<rparr>" for t u l i a n, simplified]
      split: option.splits sum.splits dest!: save_new_ok)

lemma move_route_ok: "server_ok s \<Longrightarrow> server_ok (snd (move_route e fid uid loc nts s))"
proof -
  assume ok: "server_ok s"
  show ?thesis
  proof (cases "findByFileId fid (db s)")
    case None
    then show ?thesis using ok by (simp add: move_route_def)
  next
    case (Some r)
    then have rin: "r \<in> set (db s)" by (simp add: findByFileId_Some)
    with ok have rok: "ledger_ok (custodyChain r) (currentLocation r)" by (simp add: server_ok_def)
    define ev where "ev = \<lparr>action = Move, timestamp = now e, userId = uid, location = loc,
                      ipAddress = ip e, userAgent = agent e,
                      notes' = Some (or_else nts
                        (''File moved from '' @ currentLocation r @ '' to '' @ loc))\<rparr>"
    have r2ok: "ledger_ok (custodyChain r @ [ev]) loc"
      using ledger_ok_move[OF rok, of ev] by (simp add: ev_def)
    show ?thesis
      using ok Some r2ok
      unfolding server_ok_def move_route_def addCustodyEvent_def
      by (auto simp: Let_def ev_def split: option.splits dest!: save_ok)
  qed
qed


lemma download_route_ok: "server_ok s \<Longrightarrow> server_ok (snd (download_route hasher e fid uid nts s))"
proof -
  assume ok: "server_ok s"
  show ?thesis
  proof (cases "findByFileId fid (db s)")
    case None
    then show ?thesis using ok by (simp add: download_route_def)
  next
    case (Some r)
    then have "r \<in> set (db s)" by (simp add: findByFileId_Some)
    with ok have rok: "ledger_ok (custodyChain r) (currentLocation r)" by (simp add: server_ok_def)
    define ev where "ev = \<lparr>action = Download, timestamp = now e, userId = uid,
                      location = currentLocation r, ipAddress = ip e, userAgent = agent e,
                      notes' = Some (or_else nts ''File downloaded'')\<rparr>"
    have r2ok: "ledger_ok (custodyChain r @ [ev]) (currentLocation r)"
      using ledger_ok_read[OF rok, of ev] by (simp add: ev_def)
    show ?thesis
      using ok Some r2ok
      unfolding server_ok_def download_route_def addCustodyEvent_def
      by (auto simp: Let_def ev_def split: option.splits sum.splits dest!: save_ok)
  qed
qed

lemma access_log_route_ok: "server_ok s \<Longrightarrow> server_ok (snd (access_log_route e fid uid nts s))"
proof -
  assume ok: "server_ok s"
  show ?thesis
  proof (cases "findByFileId fid (db s)")
    case None
    then show ?thesis using ok by (simp add: access_log_route_def)
  next
    case (Some r)
    then have "r \<in> set (db s)" by (simp add: findByFileId_Some)
    with ok have rok: "ledger_ok (custodyChain r) (currentLocation r)" by (simp add: server_ok_def)
    define ev where "ev = \<lparr>action = Access, timestamp = now e, userId = uid,
                      location = currentLocation r, ipAddress = ip e, userAgent = agent e,
                      notes' = Some (or_else nts ''File accessed'')\<rparr>"
    have r2ok: "ledger_ok (custodyChain r @ [ev]) (currentLocation r)"
      using ledger_ok_read[OF rok, of ev] by (simp add: ev_def)
    show ?thesis
      using ok Some r2ok
      unfolding server_ok_def access_log_route_def addCustodyEvent_def
      by (auto simp: Let_def ev_def split: option.splits dest!: save_ok)
  qed
qed

lemma reachable_ok: "reachable hasher s \<Longrightarrow> server_ok s"
proof (induction rule: reachable.induct)
  case (reach_init d)
  show ?case by (simp add: server_ok_def)
next
  case (reach_disk s d)
  then show ?case by (simp add: server_ok_def)
qed (simp_all add: upload_route_ok move_route_ok download_route_ok access_log_route_ok)

lemma upload_indices_first: "action ev = Upload \<Longrightarrow> upload_indices [ev] = [0]"
  by (simp add: upload_indices_def)

lemma simple_upload_ok: "simple_ok t \<Longrightarrow> simple_ok (snd (simple_upload hasher e file uid meta nts t))"
proof -
  assume ok: "simple_ok t"
  show ?thesis
  proof (cases "file")
    case None
    then show ?thesis using ok by (simp add: simple_upload_def)
  next
    case (Some f)
    show ?thesis
      using ok Some
      unfolding simple_ok_def simple_upload_def chain_of_def
      by (auto simp: Let_def calculateChecksum_def update_conv' upload_indices_first)
  qed
qed

lemma simple_move_ok: "simple_ok t \<Longrightarrow> simple_ok (snd (simple_move e fid uid loc nts t))"
proof -
  assume ok: "simple_ok t"
  show ?thesis
  proof (cases "map_of (files t) fid")
    case None
    then show ?thesis using ok by (simp add: simple_move_def)
  next
    case (Some f)
    with ok have fok: "upload_indices (chain_of t fid) = [0]" by (simp add: simple_ok_def)
    show ?thesis
    proof (cases "if nts \<noteq> None \<and> nts \<noteq> Some [] then nts else moved_note (currentLocation f) loc")
      case None
      then show ?thesis
        using ok Some fok
        unfolding simple_ok_def simple_move_def
        by (auto simp: Let_def chain_of_def update_conv' split: if_splits)
    next
      case (Some msg)
      then show ?thesis
        using ok \<open>map_of (files t) fid = Some f\<close> fok
        unfolding simple_ok_def simple_move_def
        by (auto simp: Let_def chain_of_def update_conv' upload_indices_snoc split: if_splits)
    qed
  qed
qed

lemma simple_download_ok: "simple_ok t \<Longrightarrow> simple_ok (snd (simple_download e fid uid nts t))"
proof -
  assume ok: "simple_ok t"
  show ?thesis
  proof (cases "map_of (files t) fid")
    case None
    then show ?thesis using ok by (simp add: simple_download_def)
  next
    case (Some f)
    with ok have fok: "upload_indices (chain_of t fid) = [0]" by (simp add: simple_ok_def)
    show ?thesis
    proof (cases "sdisk t (filePath f)")
      case None
      then show ?thesis using ok Some by (simp add: simple_download_def)
    next
      case (Some b)
      then show ?thesis
        using ok \<open>map_of (files t) fid = Some f\<close> fok
        unfolding simple_ok_def simple_download_def
        by (auto simp: Let_def chain_of_def update_conv' upload_indices_snoc)
    qed
  qed
qed

lemma simple_reachable_ok: "simple_reachable hasher t \<Longrightarrow> simple_ok t"
proof (induction rule: simple_reachable.induct)
  case (sreach_init d)
  show ?case by (simp add: simple_ok_def)
next
  case (sreach_disk t d)
  then show ?case by (simp add: simple_ok_def chain_of_def)
qed (simp_all add: simple_upload_ok simple_move_ok simple_download_ok)

section \<open>Stored records are valid\<close>

text \<open>
  Every record that the core operations store has passed the validators of the schema:
  the validity that the statements about the access log and about the move ask of the
  stored record holds in every reachable state.
\<close>

lemma save_valid:
  "save e k r docs = Some docs' \<Longrightarrow> \<forall>x\<in>set docs. validate x \<Longrightarrow> \<forall>x\<in>set docs'. validate x"
  by (auto simp: save_def validate_def split: if_splits)

lemma save_new_valid:
  "save_new e k r docs = Some docs' \<Longrightarrow> \<forall>x\<in>set docs. validate x \<Longrightarrow> \<forall>x\<in>set docs'. validate x"
  by (auto simp: save_new_def validate_def split: if_splits)

lemma reachable_valid: "reachable hasher s \<Longrightarrow> \<forall>r\<in>set (db s). validate r"
proof (induction rule: reachable.induct)
  case (reach_init d)
  show ?case by simp
next
  case (reach_upload s e file' uid meta nts)
  then show ?case
    by (auto simp: upload_route_def Let_def split: option.splits if_splits sum.splits
        dest!: save_new_valid)
next
  case (reach_move s e fid uid loc nts)
  then show ?case
    by (auto simp: move_route_def addCustodyEvent_def Let_def split: option.splits if_splits
        dest!: save_valid)
next
  case (reach_download s e fid uid nts)
  then show ?case
    by (auto simp: download_route_def addCustodyEvent_def Let_def
        split: option.splits if_splits sum.splits dest!: save_valid)
next
  case (reach_access s e fid uid nts)
  then show ?case
    by (auto simp: access_log_route_def addCustodyEvent_def Let_def split: option.splits if_splits
        dest!: save_valid)
next
  case (reach_disk s d)
  then show ?case by simp
qed

section \<open>The scenarios, evaluated\<close>

lemmas route_defs = upload_route_def move_route_def download_route_def access_log_route_def
  addCustodyEvent_def save_def save_new_def validate_def valid_event_def findByFileId_def
  calculateChecksum_def verifyFileIntegrity_def renameSync_def blocked_def path_join_def
  path_normalize_def basename_def uploadDir_def or_else_def demo_digest_def hex_digit_def Let_def

lemma ex_ingested_eval:
  "ex_ingested =
     \<lparr>db = [\<lparr>fileId = ''id-1'', originalFileName = ''a.txt'', filePath = ex_path, fileSize = 8,
              mimeType = ''text/plain'', checksum = ''49'', currentLocation = ''uploads'',
              status = Active, metadata = ex_meta, createdAt = 1000, updatedAt = 1000,
              custodyChain = [\<lparr>action = Upload, timestamp = 1000, userId = ''u1'',
                               location = ''uploads'', ipAddress = Some ''10.0.0.1'',
                               userAgent = Some ''curl'', notes' = None\<rparr>]\<rparr>],
      disk = [ex_path \<mapsto> ''evidence'']\<rparr>"
  by (simp add: ex_ingested_def ex_env_def ex_file_def ex_empty_def ex_path_def route_defs)

lemma ex_relocated_eval:
  "ex_relocated =
     \<lparr>db = [\<lparr>fileId = ''id-1'', originalFileName = ''a.txt'',
              filePath = ''/app/backend/archive/file-1.txt'', fileSize = 8,
              mimeType = ''text/plain'', checksum = ''49'', currentLocation = ''archive'',
              status = Active, metadata = ex_meta, createdAt = 1000, updatedAt = 2000,
              custodyChain = [\<lparr>action = Upload, timestamp = 1000, userId = ''u1'',
                               location = ''uploads'', ipAddress = Some ''10.0.0.1'',
                               userAgent = Some ''curl'', notes' = None\<rparr>,
                              \<lparr>action = Move, timestamp = 2000, userId = ''u2'',
                               location = ''archive'', ipAddress = Some ''10.0.0.2'',
                               userAgent = None,
                               notes' = Some ''File moved from uploads to archive''\<rparr>]\<rparr>],
      disk = [''/app/backend/archive/file-1.txt'' \<mapsto> ''evidence'']\<rparr>"
  apply (simp add: ex_relocated_def ex_ingested_eval)
  apply (simp add: ex_env2_def ex_path_def route_defs)
  done

lemma ex_tampered_eval:
  "ex_tampered =
     \<lparr>db = [\<lparr>fileId = ''id-1'', originalFileName = ''a.txt'', filePath = ex_path, fileSize = 8,
              mimeType = ''text/plain'', checksum = ''49'', currentLocation = ''uploads'',
              status = Active, metadata = ex_meta, createdAt = 1000, updatedAt = 1000,
              custodyChain = [\<lparr>action = Upload, timestamp = 1000, userId = ''u1'',
                               location = ''uploads'', ipAddress = Some ''10.0.0.1'',
                               userAgent = Some ''curl'', notes' = None\<rparr>]\<rparr>],
      disk = [ex_path \<mapsto> ''forged'']\<rparr>"
  by (simp add: ex_tampered_def ex_ingested_eval)

lemma ex_archived_eval:
  "ex_archived =
     \<lparr>db = [\<lparr>fileId = ''id-1'', originalFileName = ''a.txt'', filePath = ex_path, fileSize = 8,
              mimeType = ''text/plain'', checksum = ''49'', currentLocation = ''uploads'',
              status = Archived, metadata = ex_meta, createdAt = 1000, updatedAt = 1000,
              custodyChain = [\<lparr>action = Upload, timestamp = 1000, userId = ''u1'',
                               location = ''uploads'', ipAddress = Some ''10.0.0.1'',
                               userAgent = Some ''curl'', notes' = None\<rparr>]\<rparr>],
      disk = [ex_path \<mapsto> ''forged'']\<rparr>"
  by (simp add: ex_archived_def ex_tampered_eval)

lemma find_replace:
  "find (\<lambda>x. fileId x = fid) docs = Some r \<Longrightarrow> fileId r' = fid
   \<Longrightarrow> find (\<lambda>x. fileId x = fid) (map (\<lambda>d. if fileId d = fid then r' else d) docs) = Some r'"
  by (induction docs) (auto split: if_splits)

section \<open>Scenario A, evaluated on both servers\<close>

lemma ex_retrieved_eval:
  "db ex_retrieved =
     [\<lparr>fileId = ''id-1'', originalFileName = ''a.txt'',
       filePath = ''/app/backend/archive/file-1.txt'', fileSize = 8,
       mimeType = ''text/plain'', checksum = ''49'', currentLocation = ''archive'',
       status = Active, metadata = ex_meta, createdAt = 1000, updatedAt = 2000,
       custodyChain = [\<lparr>action = Upload, timestamp = 1000, userId = ''u1'',
                        location = ''uploads'', ipAddress = Some ''10.0.0.1'',
                        userAgent = Some ''curl'', notes' = None\<rparr>,
                       \<lparr>action = Move, timestamp = 2000, userId = ''u2'',
                        location = ''archive'', ipAddress = Some ''10.0.0.2'',
                        userAgent = None,
                        notes' = Some ''File moved from uploads to archive''\<rparr>,
                       \<lparr>action = Download, timestamp = 2000, userId = ''u3'',
                        location = ''archive'', ipAddress = Some ''10.0.0.2'',
                        userAgent = None, notes' = Some ''File downloaded''\<rparr>]\<rparr>]"
  apply (simp add: ex_retrieved_def ex_relocated_eval)
  apply (simp add: ex_env2_def route_defs)
  done

lemma ex_retrieved_reachable: "reachable demo_digest ex_retrieved"
  unfolding ex_retrieved_def ex_relocated_def ex_ingested_def ex_empty_def
  by (intro reach_download reach_move reach_upload reach_init)

lemmas simple_defs = simple_upload_def simple_move_def simple_download_def chain_of_def
  moved_note_def calculateChecksum_def path_join_def path_normalize_def uploadsDir_def or_else_def
  demo_digest_def hex_digit_def Let_def

lemma sx_ingested_eval:
  "sx_ingested =
     \<lparr>files = [(''id-1'',
                \<lparr>fileId = ''id-1'', originalFileName = ''a.txt'', filePath = sx_path,
                 fileSize = 8, mimeType = ''text/plain'', checksum = ''49'',
                 currentLocation = JString ''uploads'', status = Active,
                 metadata = \<lparr>department = Some ''lab'', caseNumber = Some [],
                             evidenceType = Some [], classification = Some []\<rparr>,
                 createdAt = 1000, updatedAt = 1000\<rparr>)],
      custodyChain_map =
        [(''id-1'', [\<lparr>action = Upload, timestamp = 1000, userId = ''u1'',
                      location = JString ''uploads'', ipAddress = Some ''10.0.0.1'',
                      userAgent = Some ''curl'', notes' = Some ''File uploaded''\<rparr>])],
      sdisk = [sx_path \<mapsto> ''evidence'']\<rparr>"
  by (simp add: sx_ingested_def sx_empty_def ex_env_def ex_file_def ex_meta_def sx_path_def simple_defs)

lemma sx_retrieved_eval:
  "map_of (files sx_retrieved) ''id-1'' =
     Some \<lparr>fileId = ''id-1'', originalFileName = ''a.txt'', filePath = sx_path,
            fileSize = 8, mimeType = ''text/plain'', checksum = ''49'',
            currentLocation = JString ''archive'', status = Active,
            metadata = \<lparr>department = Some ''lab'', caseNumber = Some [],
                        evidenceType = Some [], classification = Some []\<rparr>,
            createdAt = 1000, updatedAt = 2000\<rparr>
   \<and> chain_of sx_retrieved ''id-1'' =
       [\<lparr>action = Upload, timestamp = 1000, userId = ''u1'',
         location = JString ''uploads'', ipAddress = Some ''10.0.0.1'',
         userAgent = Some ''curl'', notes' = Some ''File uploaded''\<rparr>,
        \<lparr>action = Move, timestamp = 2000, userId = ''u2'',
         location = JString ''archive'', ipAddress = Some ''10.0.0.2'', userAgent = None,
         notes' = Some ''File moved from uploads to archive''\<rparr>,
        \<lparr>action = Download, timestamp = 2000, userId = ''u3'',
         location = JString ''archive'', ipAddress = Some ''10.0.0.2'', userAgent = None,
         notes' = Some ''File downloaded''\<rparr>]"
  apply (simp add: sx_retrieved_def sx_relocated_def sx_ingested_eval)
  apply (simp add: ex_env2_def sx_path_def simple_defs)
  done

lemma sx_retrieved_reachable: "simple_reachable demo_digest sx_retrieved"
  unfolding sx_retrieved_def sx_relocated_def sx_ingested_def sx_empty_def
  by (intro sreach_download sreach_move sreach_upload sreach_init)

section \<open>Retrieve\<close>

text \<open>
  Claim C2. A download request that names its user, for an existing active record whose
  stored bytes no longer hash to the recorded checksum, is answered with the integrity
  error; nothing is streamed and the state, hence the custody chain, is what it was.
\<close>

theorem retrieve_integrity_gate:
  assumes "uid \<noteq> []"
    and "findByFileId fid (db s) = Some r"
    and "status r = Active"
    and "disk s (filePath r) = Some b"
    and "hasher ''sha256'' b \<noteq> checksum r"
  shows "download_route hasher e fid uid nts s = (Inl IntegrityViolation, s)"
  using assms by (simp add: download_route_def verifyFileIntegrity_def)

theorem retrieve_integrity_gate_witness:
  "download_route demo_digest ex_env2 ''id-1'' ''u3'' None ex_tampered
     = (Inl IntegrityViolation, ex_tampered)
   \<and> map (map action \<circ> custodyChain) (db ex_tampered) = [[Upload]]"
proof -
  have "download_route demo_digest ex_env2 ''id-1'' ''u3'' None ex_tampered
          = (Inl IntegrityViolation, ex_tampered)"
    by (rule retrieve_integrity_gate[where r = "hd (db ex_tampered)" and b = "''forged''"])
       (simp_all add: ex_tampered_eval findByFileId_def demo_digest_def hex_digit_def)
  then show ?thesis by (simp add: ex_tampered_eval)
qed

section \<open>The in-memory server checks neither status nor bytes\<close>





section \<open>The status gate\<close>




section \<open>LogAccess\<close>

text \<open>
  Claim C8. For an existing record, an access-log request with a file identifier and a
  user identifier appends exactly one access event and changes nothing else, whatever
  the status of the record and whatever the bytes on disk: the handler reads neither.
  The stored record has passed the schema's validators and the database write goes
  through.
\<close>

theorem access_log_unconditional:
  assumes "fid \<noteq> []" and "uid \<noteq> []"
    and "findByFileId fid (db s) = Some r"
    and "validate r"
    and "db_up e 0"
  shows "access_log_route e fid uid nts s =
           (Inr \<lparr>ac_fileId = fid, ac_timestamp = now e\<rparr>,
            s\<lparr>db := map (\<lambda>d. if fileId d = fid
                                then r\<lparr>custodyChain := custodyChain r @
                                         [\<lparr>action = Access, timestamp = now e, userId = uid,
                                           location = currentLocation r, ipAddress = ip e,
                                           userAgent = agent e,
                                           notes' = Some (or_else nts ''File accessed'')\<rparr>],
                                       updatedAt := now e\<rparr>
                                else d) (db s)\<rparr>)"
proof -
  have "fileId r = fid" using assms(3) by (simp add: findByFileId_Some)
  then show ?thesis
    using assms
    by (simp add: access_log_route_def addCustodyEvent_def save_def validate_def valid_event_def Let_def)
qed

theorem access_log_unconditional_witness:
  "fst (access_log_route ex_env2 ''id-1'' ''u9'' None ex_archived)
     = Inr \<lparr>ac_fileId = ''id-1'', ac_timestamp = 2000\<rparr>
   \<and> map status (db (snd (access_log_route ex_env2 ''id-1'' ''u9'' None ex_archived))) = [Archived]
   \<and> map (map action \<circ> custodyChain) (db (snd (access_log_route ex_env2 ''id-1'' ''u9'' None ex_archived)))
     = [[Upload, Access]]"
proof -
  have f: "findByFileId ''id-1'' (db ex_archived) = Some (hd (db ex_archived))"
    by (simp add: ex_archived_eval findByFileId_def)
  have v: "validate (hd (db ex_archived))"
    by (simp add: ex_archived_eval validate_def valid_event_def ex_path_def)
  have u: "db_up ex_env2 0" by (simp add: ex_env2_def)
  show ?thesis
    using access_log_unconditional[where fid = "''id-1''" and uid = "''u9''" and s = ex_archived
        and r = "hd (db ex_archived)" and e = ex_env2 and nts = None, OF _ _ f v u]
    by (simp add: ex_archived_eval ex_env2_def)
qed

section \<open>Location consistency\<close>

text \<open>
  On the Mongoose-backed server the current location of every record is the location
  of the most recent upload or move event of its chain, in every reachable state: the
  event and the location are written by one save.
\<close>

lemma reachable_location_consistent:
  "reachable hasher s \<Longrightarrow>
     \<forall>r\<in>set (db s). last_placement (custodyChain r) = Some (currentLocation r)"
  using reachable_ok[of hasher s] by (simp add: server_ok_def ledger_ok_def)

lemma sx_halfway_reachable: "simple_reachable demo_digest sx_halfway"
  unfolding sx_halfway_def sx_ingested_def sx_empty_def
  by (intro sreach_move sreach_upload sreach_init)

text \<open>
  Claim C4. The in-memory server at the failing input: after an ingest, a move request
  whose new location is an object with an own \<open>toString\<close>, without notes, is answered
  by the \<open>catch\<close> block; the state it leaves is reachable, its current location is
  the object, and its chain is still the upload event alone, whose location is
  \<open>uploads\<close>.
\<close>

theorem simple_move_leaves_location_without_event:
  "fst (simple_move ex_env2 ''id-1'' ''u2'' (JObject [(''toString'', JNull)]) None sx_ingested)
     = Inl Failed
   \<and> simple_reachable demo_digest sx_halfway
   \<and> map (currentLocation \<circ> snd) (files sx_halfway) = [JObject [(''toString'', JNull)]]
   \<and> map action (chain_of sx_halfway ''id-1'') = [Upload]
   \<and> last_placement (chain_of sx_halfway ''id-1'') = Some (JString ''uploads'')"
proof -
  have "fst (simple_move ex_env2 ''id-1'' ''u2'' (JObject [(''toString'', JNull)]) None sx_ingested)
          = Inl Failed
        \<and> map (currentLocation \<circ> snd) (files sx_halfway) = [JObject [(''toString'', JNull)]]
        \<and> map action (chain_of sx_halfway ''id-1'') = [Upload]
        \<and> last_placement (chain_of sx_halfway ''id-1'') = Some (JString ''uploads'')"
    apply (simp add: sx_halfway_def sx_ingested_eval)
    apply (simp add: ex_env2_def simple_defs last_placement_def is_placement_def)
    done
  then show ?thesis using sx_halfway_reachable by simp
qed

section \<open>Single upload event\<close>

lemma upload_route_creates:
  assumes "upload_route hasher e file uid meta nts s = (Inr resp, s')"
  shows "\<exists>r. db s' = db s @ [r] \<and> fileId r = up_fileId resp
             \<and> map action (custodyChain r) = [Upload]"
  using assms
  by (auto simp: upload_route_def save_new_def Let_def split: option.splits if_splits sum.splits)

text \<open>
  Claim C5. In every state that the core operations reach, on both servers, the custody
  chain of every record holds an upload event at index 0 and nowhere else. A successful
  ingest adds one record to the collection, in one save, whose chain is that single
  upload event.
\<close>

theorem single_upload_first:
  "(reachable hasher s \<longrightarrow> (\<forall>r\<in>set (db s). upload_indices (custodyChain r) = [0]))
   \<and> (simple_reachable hasher t \<longrightarrow>
        (\<forall>fid f. map_of (files t) fid = Some f \<longrightarrow> upload_indices (chain_of t fid) = [0]))
   \<and> (upload_route hasher e file uid meta nts s = (Inr resp, s') \<longrightarrow>
        (\<exists>r. db s' = db s @ [r] \<and> fileId r = up_fileId resp
              \<and> map action (custodyChain r) = [Upload]))"
proof (intro conjI impI)
  assume "reachable hasher s"
  then have "server_ok s" by (rule reachable_ok)
  then show "\<forall>r\<in>set (db s). upload_indices (custodyChain r) = [0]"
    by (simp add: server_ok_def ledger_ok_def)
next
  assume "simple_reachable hasher t"
  then have "simple_ok t" by (rule simple_reachable_ok)
  then show "\<forall>fid f. map_of (files t) fid = Some f \<longrightarrow> upload_indices (chain_of t fid) = [0]"
    by (simp add: simple_ok_def)
next
  assume "upload_route hasher e file uid meta nts s = (Inr resp, s')"
  then show "\<exists>r. db s' = db s @ [r] \<and> fileId r = up_fileId resp
              \<and> map action (custodyChain r) = [Upload]"
    by (rule upload_route_creates)
qed

theorem single_upload_first_witness:
  "reachable demo_digest ex_retrieved
   \<and> map (upload_indices \<circ> custodyChain) (db ex_retrieved) = [[0]]
   \<and> map (map action \<circ> custodyChain) (db ex_retrieved) = [[Upload, Move, Download]]
   \<and> simple_reachable demo_digest sx_retrieved
   \<and> upload_indices (chain_of sx_retrieved ''id-1'') = [0]
   \<and> map action (chain_of sx_retrieved ''id-1'') = [Upload, Move, Download]
   \<and> map (map action \<circ> custodyChain) (db ex_ingested) = [[Upload]]"
proof -
  note inst = single_upload_first[of demo_digest ex_retrieved sx_retrieved ex_env "Some ex_file"
      "''u1''" ex_meta None]
  have a: "\<forall>r\<in>set (db ex_retrieved). upload_indices (custodyChain r) = [0]"
    using inst ex_retrieved_reachable by blast
  have b: "upload_indices (chain_of sx_retrieved ''id-1'') = [0]"
    using inst sx_retrieved_reachable sx_retrieved_eval by fastforce
  from a have "map (upload_indices \<circ> custodyChain) (db ex_retrieved) = [[0]]"
    by (simp add: ex_retrieved_eval)
  then show ?thesis
    using b ex_retrieved_reachable sx_retrieved_reachable
    by (simp add: ex_retrieved_eval sx_retrieved_eval ex_ingested_eval)
qed

section \<open>Relocate and the stored bytes\<close>


text \<open>
  When \<open>mkdirSync\<close> or \<open>renameSync\<close> throws, for a file in the way of the target
  directory or for any other reason, the \<open>catch\<close> block answers and nothing is changed.
\<close>

lemma move_route_fs_failure:
  assumes "fid \<noteq> []" and "uid \<noteq> []" and "loc \<noteq> []"
    and "findByFileId fid (db s) = Some r"
    and "status r = Active"
    and "disk s (filePath r) = Some b"
    and "\<not> fs_up e \<or> blocked (disk s)
           (path_join [path_join [path_join [backend e, ''routes''], ''../'', loc],
              basename (filePath r)])"
  shows "move_route e fid uid loc nts s = (Inl Failed, s)"
  using assms by (auto simp: move_route_def renameSync_def Let_def)



text \<open>
  The same request with a new location that names the stored file itself: the target
  directory is a file, \<open>renameSync\<close> throws, and nothing is moved or appended.
\<close>

lemma move_into_a_file_fails:
  "move_route ex_env2 ''id-1'' ''u2'' ''uploads/file-1.txt'' None ex_tampered
     = (Inl Failed, ex_tampered)"
  apply (simp add: ex_tampered_eval)
  apply (simp add: ex_env2_def ex_path_def route_defs)
  done

section \<open>Failed ingest and the stored file\<close>

text \<open>
  The \<open>catch\<close> block of the upload handler removes the stored file and leaves the
  collection as it was.
\<close>

lemma upload_route_catch_cleanup:
  assumes "upload_route hasher e (Some f) uid meta nts s = (Inl Failed, s')"
  shows "db s' = db s \<and> disk s' (path_join [uploadDir e, tmpname e]) = None"
  using assms
  by (auto simp: upload_route_def Let_def split: if_splits sum.splits option.splits)

text \<open>
  The rejection of a request without user identifier returns before the \<open>try\<close> block
  can fail, after multer has stored the file: the file stays on disk.
\<close>

lemma upload_route_missing_user:
  assumes "originalname f \<noteq> []" and "length (content f) \<le> 100 * 1024 * 1024"
  shows "upload_route hasher e (Some f) [] meta nts s =
           (Inl MissingField,
            s\<lparr>disk := (disk s)(path_join [uploadDir e, tmpname e] \<mapsto> content f)\<rparr>)"
  using assms by (simp add: upload_route_def Let_def)

text \<open>
  Claim C10. The handler at the failing input: an upload of \<open>a.txt\<close> without user
  identifier is rejected, no record is created, and the bytes remain under the upload
  directory.
\<close>

theorem upload_missing_user_orphans_file:
  "upload_route demo_digest ex_env (Some ex_file) [] ex_meta None ex_empty =
     (Inl MissingField, \<lparr>db = [], disk = [ex_path \<mapsto> ''evidence'']\<rparr>)"
  by (simp add: upload_route_missing_user ex_file_def ex_env_def ex_empty_def ex_path_def
      uploadDir_def path_join_def path_normalize_def)

section \<open>Pagination\<close>














section \<open>Verification of a digest\<close>

lemma toLowerCase_7D: "toLowerCase ''7D'' = ''7d''"
  by (simp add: toLowerCase_def toLowerCase_char_def char_of_eq_iff)

text \<open>
  Claim C6 as stated does not hold of \<open>verifyFileIntegrity\<close> in \<open>routes/download.js\<close>:
  the digest of the bytes equals the lowercased expected string, and the function
  answers \<open>false\<close>.
\<close>

theorem verify_case_insensitive_counterexample:
  "demo_digest ''sha256'' ''forged'' = toLowerCase ''7D''
   \<and> verifyFileIntegrity demo_digest [ex_path \<mapsto> ''forged''] ex_path ''7D'' = Inr False"
  by (simp add: toLowerCase_7D verifyFileIntegrity_def demo_digest_def hex_digit_def)

text \<open>
  Claim C6, amended. With a digest that prints lowercase hexadecimal,
  \<open>HashGenerator.verifyFileIntegrity\<close> is true exactly when \<open>generateFileHash\<close>
  succeeds with the lowercased expected string, so two expected strings that differ
  in case only verify alike. \<open>verifyFileIntegrity\<close> of the download route compares the
  SHA-256 digest with the expected string as it is; it agrees with the comparison
  against the lowercased string when the expected string is lowercase already.
\<close>

theorem verify_matches_digest:
  assumes "\<And>alg bytes. toLowerCase (hasher alg bytes) = hasher alg bytes"
  shows "hg_verifyFileIntegrity hasher resolve d fpath expectedHash algorithm
           = (hg_generateFileHash hasher resolve d fpath algorithm = Inr (toLowerCase expectedHash))
       \<and> (toLowerCase other = toLowerCase expectedHash \<longrightarrow>
            hg_verifyFileIntegrity hasher resolve d fpath other algorithm
              = hg_verifyFileIntegrity hasher resolve d fpath expectedHash algorithm)
       \<and> verifyFileIntegrity hasher dsk p expectedChecksum
           = (case calculateChecksum hasher dsk p of
                Inl err \<Rightarrow> Inl err
              | Inr actualChecksum \<Rightarrow> Inr (actualChecksum = expectedChecksum))
       \<and> (toLowerCase expectedChecksum = expectedChecksum \<longrightarrow>
            verifyFileIntegrity hasher dsk p expectedChecksum
              = (case calculateChecksum hasher dsk p of
                   Inl err \<Rightarrow> Inl err
                 | Inr actualChecksum \<Rightarrow> Inr (actualChecksum = toLowerCase expectedChecksum)))"
proof -
  have a: "hg_verifyFileIntegrity hasher resolve d fpath x algorithm
           = (hg_generateFileHash hasher resolve d fpath algorithm = Inr (toLowerCase x))" for x
    using assms
    by (auto simp: hg_verifyFileIntegrity_def hg_generateFileHash_def split: option.splits)
  have b: "verifyFileIntegrity hasher dsk p expectedChecksum
           = (case calculateChecksum hasher dsk p of
                Inl err \<Rightarrow> Inl err
              | Inr actualChecksum \<Rightarrow> Inr (actualChecksum = expectedChecksum))"
    by (simp add: verifyFileIntegrity_def calculateChecksum_def split: option.splits)
  have c: "verifyFileIntegrity hasher dsk p expectedChecksum
              = (case calculateChecksum hasher dsk p of
                   Inl err \<Rightarrow> Inl err
                 | Inr actualChecksum \<Rightarrow> Inr (actualChecksum = toLowerCase expectedChecksum))"
    if "toLowerCase expectedChecksum = expectedChecksum"
    using b that by metis
  show ?thesis
    using a b c by simp
qed

lemma hex_digit_lower: "toLowerCase_char (hex_digit n) = hex_digit n"
proof -
  have "\<forall>c\<in>set ''0123456789abcdef''. toLowerCase_char c = c"
    by (simp add: toLowerCase_char_def)
  moreover have "hex_digit n \<in> set ''0123456789abcdef''"
    unfolding hex_digit_def by (rule nth_mem) simp
  ultimately show ?thesis by blast
qed

lemma demo_digest_lower: "toLowerCase (demo_digest alg bytes) = demo_digest alg bytes"
  by (simp add: demo_digest_def toLowerCase_def Let_def hex_digit_lower)

theorem verify_matches_digest_witness:
  "hg_generateFileHash demo_digest ex_resolve (cli_disk cx_empty) ''evidence.pdf'' ''sha256'' = Inr ''7d''
   \<and> toLowerCase ''7D'' = ''7d''
   \<and> hg_verifyFileIntegrity demo_digest ex_resolve (cli_disk cx_empty) ''evidence.pdf'' ''7D'' ''sha256''
   \<and> toLowerCase ''7d'' = ''7d''
   \<and> verifyFileIntegrity demo_digest [ex_path \<mapsto> ''forged''] ex_path ''7d'' = Inr True"
proof -
  note inst = verify_matches_digest[of demo_digest ex_resolve "cli_disk cx_empty" "''evidence.pdf''"
      "''7D''" "''sha256''" "''7d''" "[ex_path \<mapsto> ''forged'']" ex_path "''7d''", OF demo_digest_lower]
  have g: "hg_generateFileHash demo_digest ex_resolve (cli_disk cx_empty) ''evidence.pdf'' ''sha256''
             = Inr ''7d''"
    by (simp add: hg_generateFileHash_def toLowerCase_def toLowerCase_char_def supportedAlgorithms_def
        ex_resolve_def cx_empty_def demo_digest_def hex_digit_def)
  have l: "toLowerCase ''7d'' = ''7d''"
    by (simp add: toLowerCase_def toLowerCase_char_def)
  have c: "calculateChecksum demo_digest [ex_path \<mapsto> ''forged''] ex_path = Inr ''7d''"
    by (simp add: calculateChecksum_def demo_digest_def hex_digit_def)
  show ?thesis
    using inst g l c by (simp add: toLowerCase_7D)
qed

section \<open>File identifiers\<close>

lemma ex_recreated_eval:
  "map filePath (db ex_recreated) = [ex_path, ex_path]"
  "map fileId (db ex_recreated) = [''id-1'', ''id-2'']"
  "map (map userId \<circ> custodyChain) (db ex_recreated) = [[''u1''], [''u2'']]"
  by (simp_all add: ex_recreated_def ex_ingested_eval)
     (simp_all add: ex_env2_def ex_file2_def ex_path_def route_defs)

text \<open>
  Claim C7 as stated does not hold of the upload route: a file is ingested, deleted, and
  another file is ingested at the same path; the two get different identifiers and
  two records with separate histories.
\<close>

theorem fileId_from_path_counterexample:
  "map filePath (db ex_recreated) = [ex_path, ex_path]
   \<and> map fileId (db ex_recreated) = [''id-1'', ''id-2'']
   \<and> map (map userId \<circ> custodyChain) (db ex_recreated) = [[''u1''], [''u2'']]"
  by (simp add: ex_recreated_eval)

lemma upload_route_fileId:
  "upload_route hasher e file uid meta nts s = (Inr resp, s') \<Longrightarrow> up_fileId resp = uuid e"
  by (auto simp: upload_route_def Let_def split: option.splits if_splits sum.splits)

lemma simple_upload_fileId:
  "simple_upload hasher e file uid meta nts t = (Inr resp, t') \<Longrightarrow> up_fileId resp = uuid e"
  by (auto simp: simple_upload_def Let_def split: option.splits if_splits sum.splits)

lemma hg_addToCustodyChain_eq:
  assumes "cli_disk st (resolve p) = Some (b, t)"
    and "c_readable e" and "c_writable e"
  shows "hg_addToCustodyChain hasher resolve e p h a act n st =
           (Inr \<lparr>en_id = c_entry_id e, en_timestamp = c_now e, en_action = act,
                  en_hash = h, en_algorithm = a, en_location = dirname p,
                  en_user = c_user e, en_workstation = c_host e, en_notes = n\<rparr>,
            st\<lparr>custody_db := (custody_db st)(hg_generateFileId hasher resolve p \<mapsto>
                  (case custody_db st (hg_generateFileId hasher resolve p) of
                     None \<Rightarrow> \<lparr>hg_fileId = hg_generateFileId hasher resolve p, hg_originalPath = p,
                               hg_fileName = basename p, hg_fileSize = length b,
                               hg_created = t, hg_custodyChain = [], hg_lastModified = None\<rparr>
                   | Some f \<Rightarrow> f)
                  \<lparr>hg_custodyChain :=
                     hg_custodyChain
                       (case custody_db st (hg_generateFileId hasher resolve p) of
                          None \<Rightarrow> \<lparr>hg_fileId = hg_generateFileId hasher resolve p, hg_originalPath = p,
                                    hg_fileName = basename p, hg_fileSize = length b,
                                    hg_created = t, hg_custodyChain = [], hg_lastModified = None\<rparr>
                        | Some f \<Rightarrow> f)
                     @ [\<lparr>en_id = c_entry_id e, en_timestamp = c_now e, en_action = act,
                         en_hash = h, en_algorithm = a, en_location = dirname p,
                         en_user = c_user e, en_workstation = c_host e, en_notes = n\<rparr>],
                    hg_lastModified := Some (c_now e)\<rparr>),
               audit_log := audit_log st @
                 [\<lparr>au_id = c_audit_id e, au_timestamp = c_now e, au_action = act,
                   au_fileId = hg_generateFileId hasher resolve p, au_filePath = p, au_hash = h,
                   au_algorithm = a, au_notes = n, au_user = c_user e,
                   au_workstation = c_host e\<rparr>]\<rparr>)"
  using assms
  by (simp add: hg_addToCustodyChain_def loadDatabase_def saveDatabase_def addAuditEntry_def Let_def)

text \<open>
  Claim C7, amended. In the command-line hash utility the identifier is the MD5 digest
  of the resolved path: two paths that resolve alike have one identifier, and tracking
  a file, replacing it and tracking the new file appends both entries to the chain
  of one record of the custody database. The upload handlers of both servers answer
  with the random identifier instead.
\<close>

theorem hash_utility_fileId_from_path:
  assumes "resolve p1 = resolve p2"
    and "cli_disk st (resolve p1) = Some (b1, t1)"
    and "d (resolve p2) = Some (b2, t2)"
    and "c_readable e1" and "c_writable e1" and "c_readable e2" and "c_writable e2"
  shows "hg_generateFileId hasher resolve p2 = hg_generateFileId hasher resolve p1
       \<and> (\<exists>c1 st1 c2 st2 f.
             hg_addToCustodyChain hasher resolve e1 p1 h1 a1 act1 n1 st = (Inr c1, st1)
           \<and> hg_addToCustodyChain hasher resolve e2 p2 h2 a2 act2 n2 (st1\<lparr>cli_disk := d\<rparr>)
               = (Inr c2, st2)
           \<and> en_hash c1 = h1 \<and> en_hash c2 = h2
           \<and> dom (custody_db st2) = insert (hg_generateFileId hasher resolve p1) (dom (custody_db st))
           \<and> custody_db st2 (hg_generateFileId hasher resolve p1) = Some f
           \<and> hg_custodyChain f =
               (case custody_db st (hg_generateFileId hasher resolve p1) of
                  None \<Rightarrow> [] | Some f0 \<Rightarrow> hg_custodyChain f0) @ [c1, c2])
       \<and> (upload_route hasher' e file uid meta nts s = (Inr resp, s') \<longrightarrow> up_fileId resp = uuid e)
       \<and> (simple_upload hasher' e file uid meta nts t = (Inr resp, t') \<longrightarrow> up_fileId resp = uuid e)"
proof -
  have id: "hg_generateFileId hasher resolve p2 = hg_generateFileId hasher resolve p1"
    using assms(1) by (simp add: hg_generateFileId_def)
  note first = hg_addToCustodyChain_eq[where st = st and resolve = resolve and p = p1 and b = b1
      and t = t1 and e = e1 and hasher = hasher and h = h1 and a = a1 and act = act1 and n = n1,
      OF assms(2) assms(4) assms(5)]
  obtain c1 st1 where r1: "hg_addToCustodyChain hasher resolve e1 p1 h1 a1 act1 n1 st = (Inr c1, st1)"
    using first by blast
  have d2: "cli_disk (st1\<lparr>cli_disk := d\<rparr>) (resolve p2) = Some (b2, t2)"
    using assms(3) by simp
  note second = hg_addToCustodyChain_eq[where st = "st1\<lparr>cli_disk := d\<rparr>" and resolve = resolve
      and p = p2 and b = b2 and t = t2 and e = e2 and hasher = hasher and h = h2 and a = a2
      and act = act2 and n = n2, OF d2 assms(6) assms(7)]
  obtain c2 st2 where r2: "hg_addToCustodyChain hasher resolve e2 p2 h2 a2 act2 n2
      (st1\<lparr>cli_disk := d\<rparr>) = (Inr c2, st2)"
    using second by blast
  have c1: "en_hash c1 = h1" using r1 first by auto
  have c2: "en_hash c2 = h2" using r2 second by auto
  have db1: "custody_db st1 (hg_generateFileId hasher resolve p1) \<noteq> None"
    "dom (custody_db st1) = insert (hg_generateFileId hasher resolve p1) (dom (custody_db st))"
    "\<exists>f1. custody_db st1 (hg_generateFileId hasher resolve p1) = Some f1 \<and>
       hg_custodyChain f1 = (case custody_db st (hg_generateFileId hasher resolve p1) of
                  None \<Rightarrow> [] | Some f0 \<Rightarrow> hg_custodyChain f0) @ [c1]"
    using r1 first by (auto split: option.splits)
  then obtain f1 where f1: "custody_db st1 (hg_generateFileId hasher resolve p1) = Some f1"
    "hg_custodyChain f1 = (case custody_db st (hg_generateFileId hasher resolve p1) of
                  None \<Rightarrow> [] | Some f0 \<Rightarrow> hg_custodyChain f0) @ [c1]"
    by blast
  have db2: "dom (custody_db st2) = insert (hg_generateFileId hasher resolve p1) (dom (custody_db st))"
    "\<exists>f. custody_db st2 (hg_generateFileId hasher resolve p1) = Some f \<and>
       hg_custodyChain f = (case custody_db st (hg_generateFileId hasher resolve p1) of
                  None \<Rightarrow> [] | Some f0 \<Rightarrow> hg_custodyChain f0) @ [c1, c2]"
    using r2 second f1 db1(2) by (auto simp: id)
  show ?thesis
    using id r1 r2 c1 c2 db2 upload_route_fileId[of hasher' e "file" uid meta nts s resp s']
      simple_upload_fileId[of hasher' e "file" uid meta nts t resp t']
    by blast
qed


theorem hash_utility_fileId_from_path_witness:
  "ex_resolve ''evidence.pdf'' = ex_resolve ''/case/evidence.pdf''
   \<and> hg_generateFileId demo_digest ex_resolve ''evidence.pdf'' = ''a8''
   \<and> hg_generateFileId demo_digest ex_resolve ''/case/evidence.pdf'' = ''a8''
   \<and> dom (custody_db cx_retracked) = {''a8''}
   \<and> map_option (map en_hash \<circ> hg_custodyChain) (custody_db cx_retracked ''a8'')
       = Some [''7d'', ''28'']"
proof -
  have res: "ex_resolve ''evidence.pdf'' = ex_resolve ''/case/evidence.pdf''"
    by (simp add: ex_resolve_def)
  have d1: "cli_disk cx_empty (ex_resolve ''evidence.pdf'') = Some (''forged'', 5)"
    by (simp add: cx_empty_def ex_resolve_def)
  have d2: "cx_disk2 (ex_resolve ''/case/evidence.pdf'') = Some (''other'', 15)"
    by (simp add: cx_disk2_def ex_resolve_def)
  have en: "c_readable cx_env" "c_writable cx_env" "c_readable cx_env2" "c_writable cx_env2"
    by (simp_all add: cx_env_def cx_env2_def)
  have fid: "hg_generateFileId demo_digest ex_resolve ''evidence.pdf'' = ''a8''"
    by (simp add: hg_generateFileId_def ex_resolve_def demo_digest_def hex_digit_def)
  have em: "custody_db cx_empty = Map.empty" by (simp add: cx_empty_def)
  note inst = hash_utility_fileId_from_path[where resolve = ex_resolve and ?p1.0 = "''evidence.pdf''"
      and ?p2.0 = "''/case/evidence.pdf''" and st = cx_empty and ?b1.0 = "''forged''" and ?t1.0 = 5
      and d = cx_disk2 and ?b2.0 = "''other''" and ?t2.0 = 15 and ?e1.0 = cx_env and ?e2.0 = cx_env2
      and hasher = demo_digest and ?h1.0 = "''7d''" and ?a1.0 = "''sha256''"
      and ?act1.0 = "''hash_generated''" and ?n1.0 = "[]" and ?h2.0 = "''28''"
      and ?a2.0 = "''sha256''" and ?act2.0 = "''hash_generated''" and ?n2.0 = "[]",
      OF res d1 d2 en]
  have id2: "hg_generateFileId demo_digest ex_resolve ''/case/evidence.pdf'' = ''a8''"
    using inst[THEN conjunct1] by (simp add: fid)
  obtain c1 st1 c2 st2 f where
    r1: "hg_addToCustodyChain demo_digest ex_resolve cx_env ''evidence.pdf'' ''7d'' ''sha256''
              ''hash_generated'' [] cx_empty = (Inr c1, st1)"
    and r2: "hg_addToCustodyChain demo_digest ex_resolve cx_env2 ''/case/evidence.pdf'' ''28''
              ''sha256'' ''hash_generated'' [] (st1\<lparr>cli_disk := cx_disk2\<rparr>) = (Inr c2, st2)"
    and h: "en_hash c1 = ''7d''" "en_hash c2 = ''28''"
    and dm: "dom (custody_db st2) = {''a8''}"
    and f: "custody_db st2 ''a8'' = Some f" "hg_custodyChain f = [c1, c2]"
    using inst[THEN conjunct2, THEN conjunct1] by (auto simp: fid em)
  have "st1 = cx_tracked" using r1 by (simp add: cx_tracked_def)
  with r2 have "st2 = cx_retracked" by (simp add: cx_retracked_def)
  with dm f h show ?thesis
    using res fid id2 by simp
qed

end
